theory Spec2Isabelle
  imports Main "HOL-Library.Sublist"
begin

section \<open>Values shared by the two plugin variants\<close>

text \<open>
  The repository holds two plugins. The first (\<open>letsencrypt\<close>, lines 1-169 of
  \<open>src/unnamed/part_000\<close>) keeps key and certificate in files under the configuration
  directory; the second (\<open>letsencrypt-ssl\<close>, lines 171-346) keeps them in the host's
  seed-addressed store. Definitions that exist in both carry the suffix \<open>_fs\<close> or
  \<open>_remote\<close>; the others keep the name the source gives them.

  JavaScript strings are modelled as \<open>string\<close>. \<open>toLowerCase\<close> is modelled on the
  ASCII letters, which is where it can produce the letters of \<open>staging\<close> one for one.
\<close>

definition toLowerCase_char :: "char \<Rightarrow> char" where
  "toLowerCase_char c =
     (if 65 \<le> (of_char c :: nat) \<and> (of_char c :: nat) \<le> 90
      then char_of ((of_char c :: nat) + 32) else c)"

definition toLowerCase :: "string \<Rightarrow> string" where
  "toLowerCase s = map toLowerCase_char s"

text \<open>\<open>String.prototype.includes\<close>: the argument occurs as a contiguous substring.\<close>

fun str_includes :: "string \<Rightarrow> string \<Rightarrow> bool" where
  "str_includes [] sub = (sub = [])"
| "str_includes (c # cs) sub = (prefix sub (c # cs) \<or> str_includes cs sub)"

text \<open>JavaScript truthiness of a string variable: \<open>undefined\<close> and the empty string are falsy.\<close>

definition falsy :: "string option \<Rightarrow> bool" where
  "falsy v = (v = None \<or> v = Some [])"

text \<open>
  What \<open>acme.forge.readCertificateInfo\<close> returns, reduced to the fields the plugins read,
  and the \<open>Duration\<close> of date-fns' \<open>intervalToDuration\<close> (the source casts its
  \<open>months\<close> and \<open>days\<close> to numbers and never reads \<open>years\<close>). An instant is
  counted in days from a fixed day; only \<open>intervalToDuration\<close> looks at instants.
\<close>

record certInfo =
  notAfter :: int
  domains_commonName :: string
  issuer_commonName :: string

record duration =
  years :: int
  months :: int
  days :: int

datatype error =
    CryptoError
  | ReadFileError string
  | WriteFileError string
  | MkdirError string
  | CertificateParseError
  | AcmeError string
  | SaveError

text \<open>
  How an \<open>async\<close> function of the plugins ends: it returns, it rejects with an error, it
  waits for ever on a mutex nobody will release, or it ends the process.
\<close>

datatype outcome = Returned | Threw error | Blocked | Exited int

text \<open>
  The calls the ACME client makes into the plugin while \<open>client.auto\<close> runs, each with
  the challenge token and the key authorization.
\<close>

datatype acme_call = ChallengeCreate string string | ChallengeRemove string string

text \<open>
  The effects a run leaves behind, in the order they happen: a key made by
  \<open>createPrivateKey\<close>, an ACME client constructed with an account key (and whether its
  directory is the staging one), a file written, a small file created in the host's store,
  a call of \<open>client.auto\<close> with its \<open>csr\<close>, \<open>termsOfServiceAgreed\<close> and
  \<open>challengePriority\<close> options (\<open>None\<close> when the option is not passed), and a
  completed \<open>api.ssl.save()\<close> of a certificate and key.
\<close>

datatype event =
    CreatePrivateKey string
  | NewClient string bool
  | WriteFile string string
  | CreateIndependentFileSmall string string
  | AcmeAuto string bool "string list option"
  | SslSave string string

text \<open>
  Everything outside the plugin that one call depends on: the host's configuration, the
  results of the library calls (\<open>acme-client\<close>, \<open>date-fns\<close>, \<open>fs\<close>) and of the
  host's storage calls. None of it is code of the repository, so it is a parameter.
  \<open>splitPemChain\<close> cuts a string at its PEM headers and rejects no string, so it is a
  total function here; the calls that can reject return a sum. \<open>now\<close> is what
  \<open>new Date()\<close> gives during the call, and \<open>intervalToDuration\<close> takes the start and
  the end of the interval. \<open>appRouter_reset\<close> is the host's \<open>api.appRouter.reset\<close>, as
  the router it leaves for the router it finds.
\<close>

record env =
  confdir :: string
  ssl_domain :: string
  pluginConfig_staging :: bool
  config_domain :: string
  config_ssl_mode :: string
  mkdir_fails :: bool
  readFile_fails :: "string \<Rightarrow> bool"
  writeFile_fails :: "string \<Rightarrow> bool"
  splitPemChain :: "string \<Rightarrow> string list"
  createPrivateKey :: "error + string"
  createCsr :: "string \<Rightarrow> error + string \<times> string"
  readCertificateInfo :: "string \<Rightarrow> error + certInfo"
  now :: int
  intervalToDuration :: "int \<Rightarrow> int \<Rightarrow> duration"
  acme_calls :: "acme_call list"
  acme_result :: "error + string"
  openFile_fails :: bool
  createFile_fails :: bool
  save_fails :: bool
  appRouter_reset :: "(string \<times> string) list \<Rightarrow> (string \<times> string) list"

subsection \<open>The validity evaluation\<close>

text \<open>
  Lines 85-110 of \<open>check\<close> and lines 220-247 of \<open>isSslValid\<close> are the same statements:
  \<open>daysLeft\<close> from the duration, \<open>dateValid\<close> when it exceeds 30, \<open>domainValid\<close> when
  the common name is the configured domain, reset to false when the staging flag differs
  from "the issuer's lower-cased common name includes staging".
\<close>

definition daysLeft :: "duration \<Rightarrow> int" where
  "daysLeft d = months d * 30 + days d"

definition validity :: "string \<Rightarrow> bool \<Rightarrow> certInfo \<Rightarrow> duration \<Rightarrow> bool" where
  "validity configDomain isStaging ci d =
     (let dateValid = (daysLeft d > 30);
          domainValid = (domains_commonName ci = configDomain);
          domainValid' =
            (if isStaging \<noteq> str_includes (toLowerCase (issuer_commonName ci)) ''staging''
             then False else domainValid)
      in dateValid \<and> domainValid')"

subsection \<open>The ACME client's automatic order flow\<close>

text \<open>
  \<open>client.auto\<close> is the library's: it calls the two challenge callbacks it was given, in
  an order and number the certificate authority decides, and then resolves with the
  certificate or rejects. The options object is the one the source builds.
\<close>

record 's auto_opts =
  challengeCreateFn :: "string \<Rightarrow> string \<Rightarrow> 's \<Rightarrow> 's"
  challengeRemoveFn :: "string \<Rightarrow> string \<Rightarrow> 's \<Rightarrow> 's"
  csr :: string
  termsOfServiceAgreed :: bool
  challengePriority :: "string list option"

fun run_challenges :: "'s auto_opts \<Rightarrow> acme_call list \<Rightarrow> 's \<Rightarrow> 's" where
  "run_challenges opts [] s = s"
| "run_challenges opts (ChallengeCreate t k # cs) s =
     run_challenges opts cs (challengeCreateFn opts t k s)"
| "run_challenges opts (ChallengeRemove t k # cs) s =
     run_challenges opts cs (challengeRemoveFn opts t k s)"

definition auto_event :: "'s auto_opts \<Rightarrow> event" where
  "auto_event opts = AcmeAuto (csr opts) (termsOfServiceAgreed opts) (challengePriority opts)"

definition client_auto :: "env \<Rightarrow> 's auto_opts \<Rightarrow> 's \<Rightarrow> (error + string) \<times> 's" where
  "client_auto e opts s = (acme_result e, run_challenges opts (acme_calls e) s)"

section \<open>The filesystem variant\<close>

text \<open>
  The module's globals, the host's TLS slot (\<open>api.ssl.cert\<close> and \<open>api.ssl.privateKey\<close>),
  the files and the directories on disk and the effects so far. \<open>renewMutex\<close> is true
  while the mutex is held.
\<close>

record ssl_slot =
  ssl_cert :: "string list option"
  ssl_privateKey :: "string option"

record fs_state =
  renewMutex :: bool
  sslCert :: "string option"
  sslKey :: "string option"
  sslCsr :: "string option"
  client :: "(string \<times> bool) option"
  acmeChallenges :: "string \<rightharpoonup> string"
  api_ssl :: ssl_slot
  disk :: "string \<rightharpoonup> string"
  directories :: "string set"
  history :: "event list"

definition configDir :: "env \<Rightarrow> string" where
  "configDir e = confdir e @ ''/letsencrypt''"

definition sslKeyPath :: "env \<Rightarrow> string" where
  "sslKeyPath e = confdir e @ ''/letsencrypt/ssl.key''"

definition sslCertPath :: "env \<Rightarrow> string" where
  "sslCertPath e = confdir e @ ''/letsencrypt/ssl.cert''"

definition isSSlStaging_fs :: "env \<Rightarrow> bool" where
  "isSSlStaging_fs e = pluginConfig_staging e"

text \<open>\<open>fs.promises.writeFile\<close>: rejects, or leaves the data in the file.\<close>

definition writeFile :: "env \<Rightarrow> string \<Rightarrow> string \<Rightarrow> fs_state \<Rightarrow> error + fs_state" where
  "writeFile e p d s =
     (if writeFile_fails e p then Inl (WriteFileError p)
      else Inr (s\<lparr>disk := (disk s)(p \<mapsto> d), history := history s @ [WriteFile p d]\<rparr>))"

text \<open>
  Lines 151-163. The destructuring assignment stores the request in \<open>sslCsr\<close>, then the key
  goes to \<open>sslKey\<close> and to the key file, before the request is returned.
\<close>

definition generateCsr :: "env \<Rightarrow> fs_state \<Rightarrow> (error + string) \<times> fs_state" where
  "generateCsr e s =
     (case createCsr e (ssl_domain e) of
        Inl err \<Rightarrow> (Inl err, s)
      | Inr (key, req) \<Rightarrow>
          (let s1 = s\<lparr>sslCsr := Some req, sslKey := Some key\<rparr> in
           case writeFile e (sslKeyPath e) key s1 of
             Inl err \<Rightarrow> (Inl err, s1)
           | Inr s2 \<Rightarrow> (Inr req, s2)))"

text \<open>The options of lines 119-138: two callbacks on the challenge map, the request, the terms.\<close>

definition renew_opts :: "string \<Rightarrow> fs_state auto_opts" where
  "renew_opts req =
     \<lparr>challengeCreateFn = (\<lambda>t k s. s\<lparr>acmeChallenges := (acmeChallenges s)(t \<mapsto> k)\<rparr>),
      challengeRemoveFn = (\<lambda>t k s. s\<lparr>acmeChallenges := (acmeChallenges s)(t := None)\<rparr>),
      csr = req,
      termsOfServiceAgreed = True,
      challengePriority = None\<rparr>"

text \<open>
  Lines 142-146: the four assignments to the host's slot, in order. The last one reads the
  global \<open>sslKey\<close> at that moment.
\<close>

definition install_steps :: "env \<Rightarrow> string \<Rightarrow> (fs_state \<Rightarrow> fs_state) list" where
  "install_steps e result =
     [\<lambda>s. s\<lparr>api_ssl := (api_ssl s)\<lparr>ssl_cert := None\<rparr>\<rparr>,
      \<lambda>s. s\<lparr>api_ssl := (api_ssl s)\<lparr>ssl_privateKey := None\<rparr>\<rparr>,
      \<lambda>s. s\<lparr>api_ssl := (api_ssl s)\<lparr>ssl_cert := Some (splitPemChain e result)\<rparr>\<rparr>,
      \<lambda>s. s\<lparr>api_ssl := (api_ssl s)\<lparr>ssl_privateKey := sslKey s\<rparr>\<rparr>]"

text \<open>The state after each of a list of statements, and after all of them.\<close>

fun states_after :: "('s \<Rightarrow> 's) list \<Rightarrow> 's \<Rightarrow> 's list" where
  "states_after [] s = []"
| "states_after (f # fs) s = f s # states_after fs (f s)"

fun run_steps :: "('s \<Rightarrow> 's) list \<Rightarrow> 's \<Rightarrow> 's" where
  "run_steps [] s = s"
| "run_steps (f # fs) s = run_steps fs (f s)"

text \<open>
  Lines 117-149. One call runs to its end before the next starts, so a mutex that is held
  when a call begins is one an earlier call left held, and \<open>acquire\<close> never resolves.
  No statement of \<open>renew\<close> is inside a \<open>try\<close>: a rejected \<open>await\<close> ends the call there.
\<close>

definition renew :: "env \<Rightarrow> fs_state \<Rightarrow> outcome \<times> fs_state" where
  "renew e s =
     (if renewMutex s then (Blocked, s)
      else
        (let s0 = s\<lparr>renewMutex := True\<rparr> in
         case generateCsr e s0 of
           (Inl err, s1) \<Rightarrow> (Threw err, s1)
         | (Inr req, s1) \<Rightarrow>
             (let s2 = s1\<lparr>history := history s1 @ [auto_event (renew_opts req)]\<rparr> in
              case client_auto e (renew_opts req) s2 of
                (Inl err, s3) \<Rightarrow> (Threw err, s3)
              | (Inr result, s3) \<Rightarrow>
                  (case writeFile e (sslCertPath e) result s3 of
                     Inl err \<Rightarrow> (Threw err, s3)
                   | Inr s4 \<Rightarrow>
                       (Returned,
                        (run_steps (install_steps e result) s4)\<lparr>renewMutex := False\<rparr>)))))"

text \<open>
  Lines 80-115. The certificate is parsed outside any \<open>try\<close>, so a rejection of
  \<open>readCertificateInfo\<close> is the rejection of \<open>check\<close>.
\<close>

definition check_fs :: "env \<Rightarrow> fs_state \<Rightarrow> outcome \<times> fs_state" where
  "check_fs e s =
     (if falsy (sslCert s) \<or> falsy (sslKey s) then renew e s
      else
        (case sslCert s of
           None \<Rightarrow> renew e s
         | Some c \<Rightarrow>
             (case readCertificateInfo e c of
                Inl err \<Rightarrow> (Threw err, s)
              | Inr ci \<Rightarrow>
                  if validity (ssl_domain e) (isSSlStaging_fs e) ci
                       (intervalToDuration e (now e) (notAfter ci))
                  then (Returned, s)
                  else renew e s)))"

text \<open>
  Lines 27-55 of \<open>plugin\<close>: the configuration directory is made when it is missing,
  outside any \<open>try\<close>, so a rejected \<open>mkdir\<close> is the rejection of \<open>plugin\<close>; the stored
  files are read inside a \<open>try\<close> whose handler forgets both globals; and the ACME client
  is constructed with a key made there and then.
\<close>

definition ensure_configDir :: "env \<Rightarrow> fs_state \<Rightarrow> error + fs_state" where
  "ensure_configDir e s =
     (if configDir e \<in> directories s then Inr s
      else if mkdir_fails e then Inl (MkdirError (configDir e))
      else Inr (s\<lparr>directories := insert (configDir e) (directories s)\<rparr>))"

definition load_cert :: "env \<Rightarrow> fs_state \<Rightarrow> error + fs_state" where
  "load_cert e s =
     (case disk s (sslCertPath e) of
        None \<Rightarrow> Inr s
      | Some c \<Rightarrow>
          if readFile_fails e (sslCertPath e) then Inl (ReadFileError (sslCertPath e))
          else Inr (s\<lparr>sslCert := Some c,
                      api_ssl := (api_ssl s)\<lparr>ssl_cert := Some (splitPemChain e c)\<rparr>\<rparr>))"

definition load_key :: "env \<Rightarrow> fs_state \<Rightarrow> error + fs_state" where
  "load_key e s =
     (case disk s (sslKeyPath e) of
        None \<Rightarrow> Inr s
      | Some k \<Rightarrow>
          if readFile_fails e (sslKeyPath e) then Inl (ReadFileError (sslKeyPath e))
          else Inr (s\<lparr>sslKey := Some k,
                      api_ssl := (api_ssl s)\<lparr>ssl_privateKey := Some k\<rparr>\<rparr>))"

definition load_stored :: "env \<Rightarrow> fs_state \<Rightarrow> fs_state" where
  "load_stored e s =
     (case load_cert e s of
        Inl err \<Rightarrow> s\<lparr>sslCert := None, sslKey := None\<rparr>
      | Inr s1 \<Rightarrow>
          (case load_key e s1 of
             Inl err \<Rightarrow> s1\<lparr>sslCert := None, sslKey := None\<rparr>
           | Inr s2 \<Rightarrow> s2))"

definition plugin_fs :: "env \<Rightarrow> fs_state \<Rightarrow> outcome \<times> fs_state" where
  "plugin_fs e s =
     (case ensure_configDir e s of
        Inl err \<Rightarrow> (Threw err, s)
      | Inr s0 \<Rightarrow>
          (let s1 = load_stored e s0 in
           case createPrivateKey e of
             Inl err \<Rightarrow> (Threw err, s1)
           | Inr k \<Rightarrow>
               (Returned,
                s1\<lparr>client := Some (k, pluginConfig_staging e),
                   history := history s1 @ [CreatePrivateKey k, NewClient k (pluginConfig_staging e)]\<rparr>)))"

text \<open>A process start: the module's globals and the host's slot are fresh, the disk and
  the record of past effects stay.\<close>

definition fresh_process :: "fs_state \<Rightarrow> fs_state" where
  "fresh_process s =
     s\<lparr>renewMutex := False, sslCert := None, sslKey := None, sslCsr := None,
       client := None, acmeChallenges := Map.empty,
       api_ssl := \<lparr>ssl_cert = None, ssl_privateKey = None\<rparr>\<rparr>"

section \<open>The remote-store variant\<close>

text \<open>
  The pair \<open>api.ssl.set\<close> was last given, the pair the host has saved (what
  \<open>api.ssl.getSaved\<close> resolves with), the host's small files by name, the routes of the
  host's router as path and response body, and the effects so far.
\<close>

datatype sslData = SslData string string | TrueTrue

record remote_state =
  active_ssl :: "sslData option"
  saved_ssl :: "(string \<times> string) option"
  small_files :: "string \<rightharpoonup> string"
  appRouter :: "(string \<times> string) list"
  effects :: "event list"

definition FILE_ACCOUNT_KEY_NAME :: string where
  "FILE_ACCOUNT_KEY_NAME = ''/lumeweb/relay/account.key''"

definition isSSlStaging_remote :: "env \<Rightarrow> bool" where
  "isSSlStaging_remote e = (config_ssl_mode e = ''staging'')"

text \<open>
  Lines 215-258. \<open>TrueTrue\<close> is the stand-in object \<open>{cert: true, key: true}\<close> of line
  254. The boolean is the source's second component: true when a renewal is due.
\<close>

definition isSslValid :: "env \<Rightarrow> bool \<Rightarrow> remote_state \<Rightarrow> error + sslData \<times> bool" where
  "isSslValid e boot s =
     (case saved_ssl s of
        None \<Rightarrow> Inr (TrueTrue, True)
      | Some (c, k) \<Rightarrow>
          (case readCertificateInfo e c of
             Inl err \<Rightarrow> Inl err
           | Inr ci \<Rightarrow>
               if validity (config_domain e) (isSSlStaging_remote e) ci
                    (intervalToDuration e (now e) (notAfter ci))
               then Inr (SslData c k, False)
               else Inr (SslData c k, True)))"

text \<open>
  Lines 331-344: the host's \<open>openIndependentFileSmall\<close> resolves with a file or with an
  error, and an error becomes \<open>false\<close>.
\<close>

definition getSslFile :: "env \<Rightarrow> string \<Rightarrow> remote_state \<Rightarrow> string option" where
  "getSslFile e name s = (if openFile_fails e then None else small_files s name)"

text \<open>
  The host's \<open>createIndependentFileSmall\<close>. The source awaits it and drops what it
  resolves with, so an error it reports changes nothing in the run.
\<close>

definition createIndependentFileSmall :: "env \<Rightarrow> string \<Rightarrow> string \<Rightarrow> remote_state \<Rightarrow> remote_state" where
  "createIndependentFileSmall e name d s =
     (if createFile_fails e then s
      else s\<lparr>small_files := (small_files s)(name \<mapsto> d),
             effects := effects s @ [CreateIndependentFileSmall name d]\<rparr>)"

text \<open>
  The options of lines 299-316. The create callback adds a route for the challenge's
  token to the host's router; the remove callback takes no argument and calls the host's
  \<open>reset\<close> on that router.
\<close>

definition createOrRenewSSl_opts :: "env \<Rightarrow> string \<Rightarrow> remote_state auto_opts" where
  "createOrRenewSSl_opts e req =
     \<lparr>challengeCreateFn =
        (\<lambda>t k s. s\<lparr>appRouter := appRouter s @ [(''/.well-known/acme-challenge/'' @ t, k)]\<rparr>),
      challengeRemoveFn = (\<lambda>t k s. s\<lparr>appRouter := appRouter_reset e (appRouter s)\<rparr>),
      csr = req,
      termsOfServiceAgreed = True,
      challengePriority = Some [''http-01'']\<rparr>"

text \<open>
  Lines 271-284: the account key is the stored file when there is one, otherwise a key
  made now and handed to the store.
\<close>

definition load_or_create_accountKey :: "env \<Rightarrow> remote_state \<Rightarrow> (error + string) \<times> remote_state" where
  "load_or_create_accountKey e s =
     (case getSslFile e FILE_ACCOUNT_KEY_NAME s of
        Some k \<Rightarrow> (Inr k, s)
      | None \<Rightarrow>
          (case createPrivateKey e of
             Inl err \<Rightarrow> (Inl err, s)
           | Inr k \<Rightarrow>
               (Inr k,
                createIndependentFileSmall e FILE_ACCOUNT_KEY_NAME k
                  (s\<lparr>effects := effects s @ [CreatePrivateKey k]\<rparr>))))"

text \<open>
  Lines 260-325. The two parameters \<open>oldCert\<close> and \<open>oldKey\<close> only choose the verb of a
  log line and are left out. A rejection of \<open>acmeClient.auto\<close> is caught and ends the
  process with status 1; \<open>api.ssl.set\<close> comes before \<open>api.ssl.save\<close>.
\<close>

definition createOrRenewSSl :: "env \<Rightarrow> remote_state \<Rightarrow> outcome \<times> remote_state" where
  "createOrRenewSSl e s =
     (case load_or_create_accountKey e s of
        (Inl err, s1) \<Rightarrow> (Threw err, s1)
      | (Inr accountKey, s1) \<Rightarrow>
          (let s2 = s1\<lparr>effects := effects s1 @ [NewClient accountKey (isSSlStaging_remote e)]\<rparr> in
           case createCsr e (config_domain e) of
             Inl err \<Rightarrow> (Threw err, s2)
           | Inr (certificateKey, certificateRequest) \<Rightarrow>
               (let opts = createOrRenewSSl_opts e certificateRequest;
                    s3 = s2\<lparr>effects := effects s2 @ [auto_event opts]\<rparr> in
                case client_auto e opts s3 of
                  (Inl err, s4) \<Rightarrow> (Exited 1, s4)
                | (Inr cert, s4) \<Rightarrow>
                    (let s5 = s4\<lparr>active_ssl := Some (SslData cert certificateKey)\<rparr> in
                     if save_fails e then (Threw SaveError, s5)
                     else (Returned,
                           s5\<lparr>saved_ssl := Some (cert, certificateKey),
                              effects := effects s5 @ [SslSave cert certificateKey]\<rparr>)))))"

text \<open>Lines 197-213.\<close>

definition check_remote :: "env \<Rightarrow> bool \<Rightarrow> remote_state \<Rightarrow> outcome \<times> remote_state" where
  "check_remote e boot s =
     (case isSslValid e boot s of
        Inl err \<Rightarrow> (Threw err, s)
      | Inr (d, renewal_due) \<Rightarrow>
          if \<not> renewal_due then (Returned, s\<lparr>active_ssl := Some d\<rparr>)
          else createOrRenewSSl e s)"

definition bootup :: "env \<Rightarrow> remote_state \<Rightarrow> outcome \<times> remote_state" where
  "bootup e s = check_remote e True s"

section \<open>Reading the record of effects\<close>

text \<open>The events that make an account key or hand one to an ACME client, and the options
  of the calls of \<open>client.auto\<close>, in order.\<close>

fun is_account_key_event :: "event \<Rightarrow> bool" where
  "is_account_key_event (CreatePrivateKey k) = True"
| "is_account_key_event (NewClient k st) = True"
| "is_account_key_event ev = False"

fun auto_calls :: "event list \<Rightarrow> (string \<times> bool \<times> string list option) list" where
  "auto_calls [] = []"
| "auto_calls (AcmeAuto c t p # evs) = (c, t, p) # auto_calls evs"
| "auto_calls (ev # evs) = auto_calls evs"

text \<open>The pairs that \<open>api.ssl.save\<close> has persisted, in order.\<close>

fun saved_pairs :: "event list \<Rightarrow> (string \<times> string) list" where
  "saved_pairs [] = []"
| "saved_pairs (SslSave c k # evs) = (c, k) # saved_pairs evs"
| "saved_pairs (ev # evs) = saved_pairs evs"

section \<open>Concrete runs\<close>

text \<open>
  A production deployment for \<open>example.test\<close> whose certificate authority answers one
  HTTP challenge and issues \<open>NEW-CERT\<close>; the stored certificate \<open>OLD-CERT\<close> parses and
  expires on day 100, one month after today, day 70. The host's router is empty after a
  reset.
\<close>

definition example_env :: env where
  "example_env =
     \<lparr>confdir = ''/etc/relay'', ssl_domain = ''example.test'', pluginConfig_staging = False,
      config_domain = ''example.test'', config_ssl_mode = ''production'',
      mkdir_fails = False,
      readFile_fails = (\<lambda>p. False), writeFile_fails = (\<lambda>p. False),
      splitPemChain = (\<lambda>pem. [pem]),
      createPrivateKey = Inr ''ACCOUNT-KEY'',
      createCsr = (\<lambda>d. Inr (''NEW-KEY'', ''CSR'')),
      readCertificateInfo =
        (\<lambda>pem. if pem = ''OLD-CERT''
               then Inr \<lparr>notAfter = 100, domains_commonName = ''example.test'',
                         issuer_commonName = ''R3''\<rparr>
               else Inl CertificateParseError),
      now = 70,
      intervalToDuration = (\<lambda>start end. \<lparr>years = 0, months = 1, days = 0\<rparr>),
      acme_calls = [ChallengeCreate ''tok'' ''auth'', ChallengeRemove ''tok'' ''auth''],
      acme_result = Inr ''NEW-CERT'',
      openFile_fails = False, createFile_fails = False, save_fails = False,
      appRouter_reset = (\<lambda>r. [])\<rparr>"

text \<open>The same deployment when the certificate authority rejects the challenge.\<close>

definition acme_failing_env :: env where
  "acme_failing_env = example_env\<lparr>acme_result := Inl (AcmeError ''challenge failed'')\<rparr>"

text \<open>A running filesystem plugin that serves \<open>OLD-CERT\<close> with \<open>OLD-KEY\<close>.\<close>

definition example_fs_state :: fs_state where
  "example_fs_state =
     \<lparr>renewMutex = False, sslCert = Some ''OLD-CERT'', sslKey = Some ''OLD-KEY'',
      sslCsr = None, client = Some (''ACCOUNT-KEY'', False), acmeChallenges = Map.empty,
      api_ssl = \<lparr>ssl_cert = Some [''OLD-CERT''], ssl_privateKey = Some ''OLD-KEY''\<rparr>,
      disk = [''/etc/relay/letsencrypt/ssl.cert'' \<mapsto> ''OLD-CERT'',
              ''/etc/relay/letsencrypt/ssl.key'' \<mapsto> ''OLD-KEY''],
      directories = {''/etc/relay/letsencrypt''},
      history = []\<rparr>"

text \<open>A running remote-store plugin that serves the same pair; the host's router holds a
  route of its own.\<close>

definition example_remote_state :: remote_state where
  "example_remote_state =
     \<lparr>active_ssl = Some (SslData ''OLD-CERT'' ''OLD-KEY''),
      saved_ssl = Some (''OLD-CERT'', ''OLD-KEY''),
      small_files = Map.empty,
      appRouter = [(''/status'', ''ok'')],
      effects = []\<rparr>"

text \<open>The same deployment on day 34, when the stored certificate has 2 months and 5 days
  left, and was issued by the staging authority.\<close>

definition staging_issuer_env :: env where
  "staging_issuer_env =
     example_env\<lparr>readCertificateInfo :=
                   (\<lambda>pem. Inr \<lparr>notAfter = 100, domains_commonName = ''example.test'',
                                issuer_commonName = ''(STAGING) Pretend Pear X1''\<rparr>),
                 now := 34,
                 intervalToDuration := (\<lambda>start end. \<lparr>years = 0, months = 2, days = 5\<rparr>)\<rparr>"

text \<open>
  The same deployment on day 161, two months after the stored certificate expired:
  date-fns 2 answers with the sizes of the components, 2 months and no days, for an
  interval that ends before it starts.
\<close>

definition expired_cert_env :: env where
  "expired_cert_env =
     example_env\<lparr>now := 161,
                 intervalToDuration := (\<lambda>start end. \<lparr>years = 0, months = 2, days = 0\<rparr>)\<rparr>"

text \<open>The same deployment when the stored certificate expires on day 440, one year and
  five days after today.\<close>

definition long_lived_cert_env :: env where
  "long_lived_cert_env =
     example_env\<lparr>readCertificateInfo :=
                   (\<lambda>pem. Inr \<lparr>notAfter = 440, domains_commonName = ''example.test'',
                                issuer_commonName = ''R3''\<rparr>),
                 intervalToDuration := (\<lambda>start end. \<lparr>years = 1, months = 0, days = 5\<rparr>)\<rparr>"

section \<open>Facts about the string functions\<close>

lemma str_includes_iff: "str_includes s t \<longleftrightarrow> (\<exists>p q. s = p @ t @ q)"
proof (induction s)
  case Nil
  then show ?case by auto
next
  case (Cons c cs)
  show ?case
  proof
    assume "str_includes (c # cs) t"
    then consider "prefix t (c # cs)" | "str_includes cs t" by auto
    then show "\<exists>p q. c # cs = p @ t @ q"
    proof cases
      case 1
      then obtain q where "c # cs = t @ q" by (auto simp: prefix_def)
      then have "c # cs = [] @ t @ q" by simp
      then show ?thesis by blast
    next
      case 2
      with Cons.IH obtain p q where "cs = p @ t @ q" by blast
      then have "c # cs = (c # p) @ t @ q" by simp
      then show ?thesis by blast
    qed
  next
    assume "\<exists>p q. c # cs = p @ t @ q"
    then obtain p q where pq: "c # cs = p @ t @ q" by blast
    show "str_includes (c # cs) t"
    proof (cases p)
      case Nil
      with pq have "prefix t (c # cs)" by (simp add: prefix_def)
      then show ?thesis by simp
    next
      case (Cons a p')
      with pq have "cs = p' @ t @ q" by simp
      with Cons.IH have "str_includes cs t" by blast
      then show ?thesis by simp
    qed
  qed
qed

lemma auto_calls_append: "auto_calls (xs @ ys) = auto_calls xs @ auto_calls ys"
  by (induction xs rule: auto_calls.induct) auto

lemma str_includes_map_iff:
  "str_includes (map f s) t \<longleftrightarrow> (\<exists>p u q. s = p @ u @ q \<and> map f u = t)"
proof
  assume "str_includes (map f s) t"
  then obtain p' q' where "map f s = p' @ t @ q'" by (auto simp: str_includes_iff)
  then have "\<exists>us vs. s = us @ vs \<and> p' = map f us \<and> t @ q' = map f vs"
    by (simp add: map_eq_append_conv)
  then obtain p vs where s: "s = p @ vs" and vs: "t @ q' = map f vs" by blast
  from vs have "\<exists>u q. vs = u @ q \<and> t = map f u \<and> q' = map f q"
    by (simp add: append_eq_map_conv)
  then obtain u q where "vs = u @ q" "t = map f u" by blast
  with s have "s = p @ u @ q \<and> map f u = t" by simp
  then show "\<exists>p u q. s = p @ u @ q \<and> map f u = t" by blast
next
  assume "\<exists>p u q. s = p @ u @ q \<and> map f u = t"
  then obtain p u q where "s = p @ u @ q" "map f u = t" by blast
  then have "map f s = map f p @ t @ map f q" by simp
  then show "str_includes (map f s) t" unfolding str_includes_iff by blast
qed

section \<open>What the challenge callbacks leave alone\<close>

lemmas fs_run_defs = renew_def generateCsr_def writeFile_def client_auto_def renew_opts_def
  auto_event_def sslKeyPath_def sslCertPath_def install_steps_def

lemmas remote_run_defs = createOrRenewSSl_def load_or_create_accountKey_def getSslFile_def
  createIndependentFileSmall_def client_auto_def createOrRenewSSl_opts_def auto_event_def
  isSSlStaging_remote_def FILE_ACCOUNT_KEY_NAME_def

lemma run_challenges_renew_opts:
  "\<exists>m. run_challenges (renew_opts req) cs s = s\<lparr>acmeChallenges := m\<rparr>"
proof (induction cs arbitrary: s)
  case Nil
  have "s = s\<lparr>acmeChallenges := acmeChallenges s\<rparr>" by simp
  then show ?case by (metis run_challenges.simps(1))
next
  case (Cons a cs)
  show ?case
  proof (cases a)
    case (ChallengeCreate t k)
    from Cons.IH[of "s\<lparr>acmeChallenges := (acmeChallenges s)(t \<mapsto> k)\<rparr>"]
    show ?thesis using ChallengeCreate by (auto simp: renew_opts_def)
  next
    case (ChallengeRemove t k)
    from Cons.IH[of "s\<lparr>acmeChallenges := (acmeChallenges s)(t := None)\<rparr>"]
    show ?thesis using ChallengeRemove by (auto simp: renew_opts_def)
  qed
qed

lemma run_challenges_fs_fields:
  "renewMutex (run_challenges (renew_opts req) cs s) = renewMutex s"
  "api_ssl (run_challenges (renew_opts req) cs s) = api_ssl s"
  "history (run_challenges (renew_opts req) cs s) = history s"
  "disk (run_challenges (renew_opts req) cs s) = disk s"
  "sslKey (run_challenges (renew_opts req) cs s) = sslKey s"
  "sslCert (run_challenges (renew_opts req) cs s) = sslCert s"
  "sslCsr (run_challenges (renew_opts req) cs s) = sslCsr s"
  "client (run_challenges (renew_opts req) cs s) = client s"
  using run_challenges_renew_opts[of req cs s] by auto

lemma run_challenges_createOrRenewSSl_opts:
  "\<exists>r. run_challenges (createOrRenewSSl_opts e req) cs s = s\<lparr>appRouter := r\<rparr>"
proof (induction cs arbitrary: s)
  case Nil
  have "s = s\<lparr>appRouter := appRouter s\<rparr>" by simp
  then show ?case by (metis run_challenges.simps(1))
next
  case (Cons a cs)
  show ?case
  proof (cases a)
    case (ChallengeCreate t k)
    from Cons.IH[of "s\<lparr>appRouter := appRouter s @ [(''/.well-known/acme-challenge/'' @ t, k)]\<rparr>"]
    show ?thesis using ChallengeCreate by (auto simp: createOrRenewSSl_opts_def)
  next
    case (ChallengeRemove t k)
    from Cons.IH[of "s\<lparr>appRouter := appRouter_reset e (appRouter s)\<rparr>"]
    show ?thesis using ChallengeRemove by (auto simp: createOrRenewSSl_opts_def)
  qed
qed

lemma run_challenges_remote_fields:
  "active_ssl (run_challenges (createOrRenewSSl_opts e req) cs s) = active_ssl s"
  "saved_ssl (run_challenges (createOrRenewSSl_opts e req) cs s) = saved_ssl s"
  "small_files (run_challenges (createOrRenewSSl_opts e req) cs s) = small_files s"
  "effects (run_challenges (createOrRenewSSl_opts e req) cs s) = effects s"
  using run_challenges_createOrRenewSSl_opts[of e req cs s] by auto

lemma auto_event_opts:
  "auto_event (renew_opts req) = AcmeAuto req True None"
  "auto_event (createOrRenewSSl_opts e req) = AcmeAuto req True (Some [''http-01''])"
  by (simp_all add: auto_event_def renew_opts_def createOrRenewSSl_opts_def)

lemma run_steps_last: "run_steps fs s = last (s # states_after fs s)"
  by (induction fs arbitrary: s) auto

section \<open>The renewal guard\<close>

text \<open>
  C1. The claim: the renewal guard is released whenever the renewal operation exits, also
  when a step fails, so that the next renewal can acquire it. The filesystem variant
  releases the mutex on its last line only. Here the certificate authority rejects the
  challenge: \<open>renew\<close> rejects with that error, the mutex is still held afterwards, and the
  next \<open>renew\<close>, in a world where everything would succeed, never gets past \<open>acquire\<close>.
\<close>

theorem failed_renewal_leaves_mutex_held:
  "fst (renew acme_failing_env example_fs_state) = Threw (AcmeError ''challenge failed'') \<and>
   renewMutex (snd (renew acme_failing_env example_fs_state)) \<and>
   fst (renew example_env (snd (renew acme_failing_env example_fs_state))) = Blocked"
proof -
  have a: "fst (renew acme_failing_env example_fs_state) = Threw (AcmeError ''challenge failed'')"
    by (simp add: fs_run_defs acme_failing_env_def example_env_def example_fs_state_def)
  have b: "renewMutex (snd (renew acme_failing_env example_fs_state))"
    by (simp add: fs_run_defs acme_failing_env_def example_env_def example_fs_state_def)
  have c: "fst (renew example_env (snd (renew acme_failing_env example_fs_state))) = Blocked"
    using b by (simp add: renew_def)
  from a b c show ?thesis by simp
qed

section \<open>The active TLS pair across a failed renewal\<close>

lemma renew_failure_keeps_slot:
  "fst (renew e s) \<noteq> Returned \<Longrightarrow> api_ssl (snd (renew e s)) = api_ssl s"
  by (auto simp: renew_def generateCsr_def writeFile_def client_auto_def Let_def
        run_challenges_fs_fields split: sum.splits prod.splits if_splits)

lemma createOrRenewSSl_failure_keeps_slot:
  "fst (createOrRenewSSl e r) \<noteq> Returned \<Longrightarrow> \<not> save_fails e \<Longrightarrow>
   active_ssl (snd (createOrRenewSSl e r)) = active_ssl r"
  by (auto simp: createOrRenewSSl_def load_or_create_accountKey_def createIndependentFileSmall_def
        client_auto_def Let_def run_challenges_remote_fields
        split: sum.splits prod.splits if_splits option.splits)

text \<open>
  C2, as amended. A renewal that does not return normally leaves the host's TLS pair as it
  was: in the filesystem variant whatever the step that failed (or when the call is stuck
  on the mutex); in the remote-store variant whenever the failing step is not the final
  \<open>api.ssl.save\<close>, which runs after \<open>api.ssl.set\<close> has installed the new pair.
\<close>

theorem failed_renewal_keeps_active_tls:
  "(fst (renew e s) \<noteq> Returned \<longrightarrow> api_ssl (snd (renew e s)) = api_ssl s) \<and>
   (fst (createOrRenewSSl e r) \<noteq> Returned \<and> \<not> save_fails e \<longrightarrow>
      active_ssl (snd (createOrRenewSSl e r)) = active_ssl r)"
  using renew_failure_keeps_slot createOrRenewSSl_failure_keeps_slot by blast

text \<open>
  The theorem at the rejected challenge: both variants fail (the remote one ends the
  process) and both still hold the old pair.
\<close>

theorem failed_renewal_keeps_active_tls_witness:
  "fst (renew acme_failing_env example_fs_state) = Threw (AcmeError ''challenge failed'') \<and>
   api_ssl (snd (renew acme_failing_env example_fs_state))
     = \<lparr>ssl_cert = Some [''OLD-CERT''], ssl_privateKey = Some ''OLD-KEY''\<rparr> \<and>
   fst (createOrRenewSSl acme_failing_env example_remote_state) = Exited 1 \<and>
   active_ssl (snd (createOrRenewSSl acme_failing_env example_remote_state))
     = Some (SslData ''OLD-CERT'' ''OLD-KEY'')"
proof -
  have a: "fst (renew acme_failing_env example_fs_state) = Threw (AcmeError ''challenge failed'')"
    by (simp add: fs_run_defs acme_failing_env_def example_env_def example_fs_state_def)
  have b: "fst (createOrRenewSSl acme_failing_env example_remote_state) = Exited 1"
    by (simp add: remote_run_defs acme_failing_env_def example_env_def example_remote_state_def)
  have c: "\<not> save_fails acme_failing_env"
    by (simp add: acme_failing_env_def example_env_def)
  from a b c
    failed_renewal_keeps_active_tls[of acme_failing_env example_fs_state example_remote_state]
  have "api_ssl (snd (renew acme_failing_env example_fs_state)) = api_ssl example_fs_state"
    and "active_ssl (snd (createOrRenewSSl acme_failing_env example_remote_state))
           = active_ssl example_remote_state"
    by simp_all
  with a b show ?thesis
    by (simp add: example_fs_state_def example_remote_state_def)
qed

text \<open>
  The claim as stated fails in the remote-store variant when the save is the failing
  step: the call rejects and the host's pair is the new one, not the old one.
\<close>

theorem failed_save_replaces_active_tls:
  "fst (createOrRenewSSl (example_env\<lparr>save_fails := True\<rparr>) example_remote_state)
     = Threw SaveError \<and>
   active_ssl (snd (createOrRenewSSl (example_env\<lparr>save_fails := True\<rparr>) example_remote_state))
     = Some (SslData ''NEW-CERT'' ''NEW-KEY'') \<and>
   active_ssl example_remote_state = Some (SslData ''OLD-CERT'' ''OLD-KEY'')"
  by (simp add: remote_run_defs example_env_def example_remote_state_def)

section \<open>The validity evaluation decides\<close>

text \<open>
  What both variants do with a stored certificate that parses: the months and the days of
  the duration decide the date check, and neither its years nor the two instants do.
\<close>

lemma date_check_by_duration_fields:
  assumes "readCertificateInfo e c = Inr ci"
      and "d = intervalToDuration e (now e) (notAfter ci)"
      and "sslCert s = Some c" and "c \<noteq> []" and "sslKey s = Some k" and "k \<noteq> []"
      and "saved_ssl r = Some (c, k)"
  shows "check_fs e s =
           (if months d * 30 + days d \<le> 30 then renew e s
            else if domains_commonName ci = ssl_domain e \<and>
                    isSSlStaging_fs e = str_includes (toLowerCase (issuer_commonName ci)) ''staging''
                 then (Returned, s) else renew e s) \<and>
         isSslValid e boot r =
           Inr (SslData c k,
                if months d * 30 + days d \<le> 30 then True
                else \<not> (domains_commonName ci = config_domain e \<and>
                        isSSlStaging_remote e
                          = str_includes (toLowerCase (issuer_commonName ci)) ''staging''))"
  using assms
  by (auto simp: check_fs_def isSslValid_def validity_def daysLeft_def falsy_def Let_def)

lemma production_issuer_excludes:
  "\<not> str_includes (toLowerCase ''R3'') ''staging''"
  by code_simp

text \<open>
  C5. The claim: the days remaining are the whole months of the calendar duration from
  now to \<open>notAfter\<close> times 30 plus the remaining days of that duration, and the check
  renews exactly when that number is at most 30. The code multiplies the duration's
  \<open>months\<close> component by 30 and adds its \<open>days\<close> component, and reads nothing else.
  A certificate that expired two months ago comes with the components 0, 2, 0: the days
  left are 60, and both variants judge it valid and renew nothing. A certificate with one
  year and five days to go comes with the components 1, 0, 5: the days left are 5, and
  both variants renew it, with twelve whole months and five days remaining.
\<close>

theorem date_check_ignores_years_and_sign:
  "readCertificateInfo expired_cert_env ''OLD-CERT''
     = Inr \<lparr>notAfter = 100, domains_commonName = ''example.test'', issuer_commonName = ''R3''\<rparr> \<and>
   (100::int) < now expired_cert_env \<and>
   daysLeft (intervalToDuration expired_cert_env (now expired_cert_env) 100) = 60 \<and>
   check_fs expired_cert_env example_fs_state = (Returned, example_fs_state) \<and>
   isSslValid expired_cert_env False example_remote_state
     = Inr (SslData ''OLD-CERT'' ''OLD-KEY'', False) \<and>
   intervalToDuration long_lived_cert_env (now long_lived_cert_env) 440
     = \<lparr>years = 1, months = 0, days = 5\<rparr> \<and>
   daysLeft \<lparr>years = 1, months = 0, days = 5\<rparr> = 5 \<and>
   check_fs long_lived_cert_env example_fs_state = renew long_lived_cert_env example_fs_state \<and>
   isSslValid long_lived_cert_env False example_remote_state
     = Inr (SslData ''OLD-CERT'' ''OLD-KEY'', True)"
proof -
  have a: "readCertificateInfo expired_cert_env ''OLD-CERT''
     = Inr \<lparr>notAfter = 100, domains_commonName = ''example.test'', issuer_commonName = ''R3''\<rparr>"
    and b: "(100::int) < now expired_cert_env"
    and c: "daysLeft (intervalToDuration expired_cert_env (now expired_cert_env) 100) = 60"
    by (simp_all add: expired_cert_env_def example_env_def daysLeft_def)
  have d: "check_fs expired_cert_env example_fs_state = (Returned, example_fs_state)"
    using production_issuer_excludes
    by (simp add: check_fs_def falsy_def validity_def daysLeft_def isSSlStaging_fs_def
          expired_cert_env_def example_env_def example_fs_state_def)
  have e: "isSslValid expired_cert_env False example_remote_state
             = Inr (SslData ''OLD-CERT'' ''OLD-KEY'', False)"
    using production_issuer_excludes
    by (simp add: isSslValid_def validity_def daysLeft_def isSSlStaging_remote_def
          expired_cert_env_def example_env_def example_remote_state_def)
  have f: "intervalToDuration long_lived_cert_env (now long_lived_cert_env) 440
             = \<lparr>years = 1, months = 0, days = 5\<rparr>"
    and g: "daysLeft \<lparr>years = 1, months = 0, days = 5\<rparr> = 5"
    by (simp_all add: long_lived_cert_env_def daysLeft_def)
  have h: "check_fs long_lived_cert_env example_fs_state
             = renew long_lived_cert_env example_fs_state"
    by (simp add: check_fs_def falsy_def validity_def daysLeft_def
          long_lived_cert_env_def example_fs_state_def)
  have i: "isSslValid long_lived_cert_env False example_remote_state
             = Inr (SslData ''OLD-CERT'' ''OLD-KEY'', True)"
    by (simp add: isSslValid_def validity_def daysLeft_def
          long_lived_cert_env_def example_remote_state_def)
  from a b c d e f g h i show ?thesis by simp
qed

text \<open>
  C6. When the issuer's common name contains \<open>staging\<close> in any mix of cases and the
  configuration is production, or the other way round, the check ends in a renewal
  whatever the date and domain checks say: the filesystem variant calls \<open>renew\<close>, the
  remote variant reports that a renewal is due and \<open>check\<close> goes on to
  \<open>createOrRenewSSl\<close>.
\<close>

theorem environment_mismatch_forces_renewal:
  assumes "readCertificateInfo e c = Inr ci"
      and "issuer_staging = (\<exists>p u q. issuer_commonName ci = p @ u @ q \<and> toLowerCase u = ''staging'')"
      and "sslCert s = Some c" and "c \<noteq> []" and "sslKey s = Some k" and "k \<noteq> []"
      and "saved_ssl r = Some (c, k)"
  shows "(pluginConfig_staging e \<noteq> issuer_staging \<longrightarrow> check_fs e s = renew e s) \<and>
         ((config_ssl_mode e = ''staging'') \<noteq> issuer_staging \<longrightarrow>
            isSslValid e boot r = Inr (SslData c k, True) \<and>
            check_remote e boot r = createOrRenewSSl e r)"
proof -
  have inc: "str_includes (toLowerCase (issuer_commonName ci)) ''staging'' = issuer_staging"
    using assms(2) by (simp add: toLowerCase_def str_includes_map_iff)
  have a: "pluginConfig_staging e \<noteq> issuer_staging \<Longrightarrow> check_fs e s = renew e s"
    using assms(1,3-6) inc
    by (simp add: check_fs_def validity_def falsy_def Let_def isSSlStaging_fs_def)
  have b: "(config_ssl_mode e = ''staging'') \<noteq> issuer_staging \<Longrightarrow>
           isSslValid e boot r = Inr (SslData c k, True)"
    using assms(1,7) inc
    by (simp add: isSslValid_def validity_def Let_def isSSlStaging_remote_def)
  have c: "isSslValid e boot r = Inr (SslData c k, True) \<Longrightarrow>
           check_remote e boot r = createOrRenewSSl e r"
    by (simp add: check_remote_def)
  from a b c show ?thesis by blast
qed

lemma staging_issuer_includes:
  "str_includes (toLowerCase ''(STAGING) Pretend Pear X1'') ''staging''"
  by code_simp

text \<open>
  The theorem at a staging certificate under a production configuration, with the right
  common name and 65 days left.
\<close>

theorem environment_mismatch_forces_renewal_witness:
  "\<not> pluginConfig_staging staging_issuer_env \<and>
   config_ssl_mode staging_issuer_env = ''production'' \<and>
   daysLeft (intervalToDuration staging_issuer_env (now staging_issuer_env) 100) = 65 \<and>
   check_fs staging_issuer_env example_fs_state = renew staging_issuer_env example_fs_state \<and>
   isSslValid staging_issuer_env True example_remote_state
     = Inr (SslData ''OLD-CERT'' ''OLD-KEY'', True) \<and>
   check_remote staging_issuer_env True example_remote_state
     = createOrRenewSSl staging_issuer_env example_remote_state"
proof -
  have h1: "readCertificateInfo staging_issuer_env ''OLD-CERT''
              = Inr \<lparr>notAfter = 100, domains_commonName = ''example.test'',
                     issuer_commonName = ''(STAGING) Pretend Pear X1''\<rparr>"
    by (simp add: staging_issuer_env_def)
  have "\<exists>p u q. ''(STAGING) Pretend Pear X1'' = p @ u @ q \<and> toLowerCase u = ''staging''"
    using staging_issuer_includes by (simp only: toLowerCase_def str_includes_map_iff)
  then have h2: "True = (\<exists>p u q. issuer_commonName
                    \<lparr>notAfter = 100, domains_commonName = ''example.test'',
                     issuer_commonName = ''(STAGING) Pretend Pear X1''\<rparr> = p @ u @ q
                  \<and> toLowerCase u = ''staging'')"
    by simp
  have h3: "sslCert example_fs_state = Some ''OLD-CERT''" and h4: "''OLD-CERT'' \<noteq> []"
    and h5: "sslKey example_fs_state = Some ''OLD-KEY''" and h6: "''OLD-KEY'' \<noteq> []"
    by (simp_all add: example_fs_state_def)
  have h7: "saved_ssl example_remote_state = Some (''OLD-CERT'', ''OLD-KEY'')"
    by (simp add: example_remote_state_def)
  have p1: "\<not> pluginConfig_staging staging_issuer_env"
    and p2: "config_ssl_mode staging_issuer_env = ''production''"
    and p3: "daysLeft (intervalToDuration staging_issuer_env (now staging_issuer_env) 100) = 65"
    by (simp_all add: staging_issuer_env_def example_env_def daysLeft_def)
  from environment_mismatch_forces_renewal[OF h1 h2 h3 h4 h5 h6 h7, of True] p1 p2 p3
  show ?thesis by simp
qed

section \<open>A stored certificate that does not parse\<close>

text \<open>
  C7. The claim: a stored certificate that fails to parse is handled like a missing one,
  with a renewal and no error out of the evaluation. With \<open>garbage\<close> in place of the
  certificate, \<open>check\<close> rejects with the parser's error and nothing else happens, in
  both variants; with no certificate it renews, and a file that cannot be read at start
  is forgotten by the handler of lines 45-48.
\<close>

theorem unparseable_certificate_rejects_check:
  "fst (check_fs example_env (example_fs_state\<lparr>sslCert := Some ''garbage''\<rparr>))
     = Threw CertificateParseError \<and>
   history (snd (check_fs example_env (example_fs_state\<lparr>sslCert := Some ''garbage''\<rparr>))) = [] \<and>
   fst (check_fs example_env (example_fs_state\<lparr>sslCert := None\<rparr>)) = Returned \<and>
   auto_calls (history (snd (check_fs example_env (example_fs_state\<lparr>sslCert := None\<rparr>))))
     = [(''CSR'', True, None)] \<and>
   sslCert (load_stored (example_env\<lparr>readFile_fails := (\<lambda>p. True)\<rparr>) (fresh_process example_fs_state))
     = None \<and>
   fst (check_remote example_env False (example_remote_state\<lparr>saved_ssl := Some (''garbage'', ''OLD-KEY'')\<rparr>))
     = Threw CertificateParseError"
proof -
  have a: "check_fs example_env (example_fs_state\<lparr>sslCert := Some ''garbage''\<rparr>)
             = (Threw CertificateParseError, example_fs_state\<lparr>sslCert := Some ''garbage''\<rparr>)"
    by (simp add: check_fs_def falsy_def example_env_def example_fs_state_def)
  have b: "check_fs example_env (example_fs_state\<lparr>sslCert := None\<rparr>)
             = renew example_env (example_fs_state\<lparr>sslCert := None\<rparr>)"
    by (simp add: check_fs_def falsy_def)
  have c: "fst (renew example_env (example_fs_state\<lparr>sslCert := None\<rparr>)) = Returned"
    by (simp add: fs_run_defs example_env_def example_fs_state_def)
  have d: "auto_calls (history (snd (renew example_env (example_fs_state\<lparr>sslCert := None\<rparr>))))
             = [(''CSR'', True, None)]"
    by (simp add: fs_run_defs example_env_def example_fs_state_def)
  have e: "sslCert (load_stored (example_env\<lparr>readFile_fails := (\<lambda>p. True)\<rparr>)
                      (fresh_process example_fs_state)) = None"
    by (simp add: load_stored_def load_cert_def load_key_def fresh_process_def sslCertPath_def
          sslKeyPath_def example_env_def example_fs_state_def)
  have f: "fst (check_remote example_env False
                  (example_remote_state\<lparr>saved_ssl := Some (''garbage'', ''OLD-KEY'')\<rparr>))
             = Threw CertificateParseError"
    by (simp add: check_remote_def isSslValid_def example_env_def)
  have g: "history (example_fs_state\<lparr>sslCert := Some ''garbage''\<rparr>) = []"
    by (simp add: example_fs_state_def)
  from a b c d e f g show ?thesis by simp
qed


section \<open>Installing the new pair\<close>

lemma install_slots:
  "map api_ssl (states_after (install_steps e result) s) =
     [\<lparr>ssl_cert = None, ssl_privateKey = ssl_privateKey (api_ssl s)\<rparr>,
      \<lparr>ssl_cert = None, ssl_privateKey = None\<rparr>,
      \<lparr>ssl_cert = Some (splitPemChain e result), ssl_privateKey = None\<rparr>,
      \<lparr>ssl_cert = Some (splitPemChain e result), ssl_privateKey = sslKey s\<rparr>]"
  by (simp add: install_steps_def)

lemma renew_returned_slot:
  "fst (renew e s) = Returned \<Longrightarrow>
   \<exists>key req result. createCsr e (ssl_domain e) = Inr (key, req) \<and> acme_result e = Inr result \<and>
      api_ssl (snd (renew e s))
        = \<lparr>ssl_cert = Some (splitPemChain e result), ssl_privateKey = Some key\<rparr>"
  by (auto simp: renew_def generateCsr_def writeFile_def client_auto_def Let_def install_steps_def
        run_challenges_fs_fields split: sum.splits prod.splits if_splits)

lemma createOrRenewSSl_returned_slot:
  "fst (createOrRenewSSl e r) = Returned \<Longrightarrow>
   \<exists>key req cert. createCsr e (config_domain e) = Inr (key, req) \<and> acme_result e = Inr cert \<and>
      active_ssl (snd (createOrRenewSSl e r)) = Some (SslData cert key)"
  by (auto simp: createOrRenewSSl_def load_or_create_accountKey_def createIndependentFileSmall_def
        client_auto_def Let_def run_challenges_remote_fields
        split: sum.splits prod.splits if_splits option.splits)

text \<open>
  C3, as amended. When a renewal returns, the host's pair is complete and new: the chain
  split from the certificate the ACME exchange returned, with the key that was generated
  together with the request of that call. The filesystem variant gets there by the four
  assignments of lines 142-146, whose successive slots are listed, and the state \<open>renew\<close>
  leaves is the last of them; the remote variant installs with one \<open>api.ssl.set\<close>.
\<close>

theorem successful_renewal_installs_complete_pair:
  "(fst (renew e s) = Returned \<longrightarrow>
      (\<exists>key req result. createCsr e (ssl_domain e) = Inr (key, req) \<and> acme_result e = Inr result \<and>
         api_ssl (snd (renew e s))
           = \<lparr>ssl_cert = Some (splitPemChain e result), ssl_privateKey = Some key\<rparr>)) \<and>
   map api_ssl (states_after (install_steps e result) s) =
     [\<lparr>ssl_cert = None, ssl_privateKey = ssl_privateKey (api_ssl s)\<rparr>,
      \<lparr>ssl_cert = None, ssl_privateKey = None\<rparr>,
      \<lparr>ssl_cert = Some (splitPemChain e result), ssl_privateKey = None\<rparr>,
      \<lparr>ssl_cert = Some (splitPemChain e result), ssl_privateKey = sslKey s\<rparr>] \<and>
   run_steps (install_steps e result) s = last (s # states_after (install_steps e result) s) \<and>
   (fst (createOrRenewSSl e r) = Returned \<longrightarrow>
      (\<exists>key req cert. createCsr e (config_domain e) = Inr (key, req) \<and> acme_result e = Inr cert \<and>
         active_ssl (snd (createOrRenewSSl e r)) = Some (SslData cert key)))"
  using renew_returned_slot[of e s] createOrRenewSSl_returned_slot[of e r]
    install_slots[of e result s] run_steps_last[of "install_steps e result" s]
  by blast

text \<open>The theorem at a renewal that succeeds, in both variants.\<close>

theorem successful_renewal_installs_complete_pair_witness:
  "fst (renew example_env example_fs_state) = Returned \<and>
   api_ssl (snd (renew example_env example_fs_state))
     = \<lparr>ssl_cert = Some [''NEW-CERT''], ssl_privateKey = Some ''NEW-KEY''\<rparr> \<and>
   fst (createOrRenewSSl example_env example_remote_state) = Returned \<and>
   active_ssl (snd (createOrRenewSSl example_env example_remote_state))
     = Some (SslData ''NEW-CERT'' ''NEW-KEY'')"
proof -
  have a: "fst (renew example_env example_fs_state) = Returned"
    by (simp add: fs_run_defs example_env_def example_fs_state_def)
  have b: "fst (createOrRenewSSl example_env example_remote_state) = Returned"
    by (simp add: remote_run_defs example_env_def example_remote_state_def)
  have c: "createCsr example_env d = Inr (''NEW-KEY'', ''CSR'')" for d
    by (simp add: example_env_def)
  have d: "acme_result example_env = Inr ''NEW-CERT''"
    and e: "splitPemChain example_env ''NEW-CERT'' = [''NEW-CERT'']"
    by (simp_all add: example_env_def)
  from successful_renewal_installs_complete_pair[of example_env example_fs_state "''NEW-CERT''"
      example_remote_state] a b
  have "\<exists>key req result. createCsr example_env (ssl_domain example_env) = Inr (key, req) \<and>
          acme_result example_env = Inr result \<and>
          api_ssl (snd (renew example_env example_fs_state))
            = \<lparr>ssl_cert = Some (splitPemChain example_env result), ssl_privateKey = Some key\<rparr>"
    and "\<exists>key req cert. createCsr example_env (config_domain example_env) = Inr (key, req) \<and>
          acme_result example_env = Inr cert \<and>
          active_ssl (snd (createOrRenewSSl example_env example_remote_state))
            = Some (SslData cert key)"
    by blast+
  with a b c d e show ?thesis by auto
qed

text \<open>
  The claim as stated fails during the installation: after the third assignment the slot
  holds the new certificate and no key, and before it the slot holds no certificate.
\<close>

theorem installation_passes_through_partial_pair:
  "map api_ssl (states_after (install_steps example_env ''NEW-CERT'')
                  (example_fs_state\<lparr>sslKey := Some ''NEW-KEY''\<rparr>)) =
     [\<lparr>ssl_cert = None, ssl_privateKey = Some ''OLD-KEY''\<rparr>,
      \<lparr>ssl_cert = None, ssl_privateKey = None\<rparr>,
      \<lparr>ssl_cert = Some [''NEW-CERT''], ssl_privateKey = None\<rparr>,
      \<lparr>ssl_cert = Some [''NEW-CERT''], ssl_privateKey = Some ''NEW-KEY''\<rparr>]"
  by (simp add: install_steps_def example_env_def example_fs_state_def)

section \<open>The ACME account key\<close>

lemma stored_account_key_is_reused:
  "getSslFile e FILE_ACCOUNT_KEY_NAME r = Some k \<Longrightarrow>
   filter is_account_key_event (effects (snd (createOrRenewSSl e r)))
     = filter is_account_key_event (effects r) @ [NewClient k (isSSlStaging_remote e)]"
  by (auto simp: createOrRenewSSl_def load_or_create_accountKey_def auto_event_def
        client_auto_def Let_def run_challenges_remote_fields
        split: sum.splits prod.splits if_splits option.splits)

lemma missing_account_key_is_created:
  "getSslFile e FILE_ACCOUNT_KEY_NAME r = None \<Longrightarrow> createPrivateKey e = Inr k \<Longrightarrow>
   filter is_account_key_event (effects (snd (createOrRenewSSl e r)))
     = filter is_account_key_event (effects r)
         @ [CreatePrivateKey k, NewClient k (isSSlStaging_remote e)]"
  by (auto simp: createOrRenewSSl_def load_or_create_accountKey_def auto_event_def
        createIndependentFileSmall_def client_auto_def Let_def run_challenges_remote_fields
        split: sum.splits prod.splits if_splits option.splits)

lemma created_account_key_is_stored:
  "getSslFile e FILE_ACCOUNT_KEY_NAME r = None \<Longrightarrow> createPrivateKey e = Inr k \<Longrightarrow>
   \<not> createFile_fails e \<Longrightarrow>
   small_files (snd (createOrRenewSSl e r)) FILE_ACCOUNT_KEY_NAME = Some k"
  by (auto simp: createOrRenewSSl_def load_or_create_accountKey_def auto_event_def
        createIndependentFileSmall_def client_auto_def Let_def run_challenges_remote_fields
        split: sum.splits prod.splits if_splits option.splits)

lemma load_stored_keeps:
  "disk (load_stored e s) = disk s" "history (load_stored e s) = history s"
  by (auto simp: load_stored_def load_cert_def load_key_def split: sum.splits option.splits)

lemma ensure_configDir_keeps:
  "ensure_configDir e s = Inr s0 \<Longrightarrow> disk s0 = disk s \<and> history s0 = history s"
  by (auto simp: ensure_configDir_def split: if_splits)

lemma plugin_fs_returned_makes_account_key:
  "fst (plugin_fs e s) = Returned \<Longrightarrow>
   \<exists>k. createPrivateKey e = Inr k \<and>
     filter is_account_key_event (history (snd (plugin_fs e s)))
       = filter is_account_key_event (history s)
           @ [CreatePrivateKey k, NewClient k (pluginConfig_staging e)]"
  by (auto simp: plugin_fs_def Let_def load_stored_keeps dest: ensure_configDir_keeps
        split: sum.splits)

lemma plugin_fs_rejected_makes_no_account_key:
  "fst (plugin_fs e s) \<noteq> Returned \<Longrightarrow>
   filter is_account_key_event (history (snd (plugin_fs e s)))
     = filter is_account_key_event (history s)"
  by (auto simp: plugin_fs_def Let_def load_stored_keeps dest: ensure_configDir_keeps
        split: sum.splits)

lemma plugin_fs_keeps_disk: "disk (snd (plugin_fs e s)) = disk s"
  by (auto simp: plugin_fs_def Let_def load_stored_keeps dest: ensure_configDir_keeps
        split: sum.splits)

lemma renew_makes_no_account_key:
  "filter is_account_key_event (history (snd (renew e s))) = filter is_account_key_event (history s)
   \<and> client (snd (renew e s)) = client s"
  by (auto simp: renew_def generateCsr_def writeFile_def client_auto_def Let_def install_steps_def
        auto_event_def run_challenges_fs_fields split: sum.splits prod.splits if_splits)

text \<open>
  C4, as amended. The remote variant uses the account key the store returns and makes
  none; when the store returns none it makes one key, hands it to the store (where it
  stays unless the store reports an error) and uses it. The filesystem variant makes a
  new account key at every start of the plugin that returns, and none at a start that
  rejects; it writes the key to no file, and its renewals use the client of that start
  without making another key.
\<close>

theorem account_key_per_variant:
  "(getSslFile e FILE_ACCOUNT_KEY_NAME r = Some k \<longrightarrow>
      filter is_account_key_event (effects (snd (createOrRenewSSl e r)))
        = filter is_account_key_event (effects r) @ [NewClient k (isSSlStaging_remote e)]) \<and>
   (getSslFile e FILE_ACCOUNT_KEY_NAME r = None \<and> createPrivateKey e = Inr k \<longrightarrow>
      filter is_account_key_event (effects (snd (createOrRenewSSl e r)))
        = filter is_account_key_event (effects r)
            @ [CreatePrivateKey k, NewClient k (isSSlStaging_remote e)]) \<and>
   (getSslFile e FILE_ACCOUNT_KEY_NAME r = None \<and> createPrivateKey e = Inr k \<and>
    \<not> createFile_fails e \<longrightarrow>
      small_files (snd (createOrRenewSSl e r)) FILE_ACCOUNT_KEY_NAME = Some k) \<and>
   (fst (plugin_fs e s) = Returned \<longrightarrow>
      (\<exists>k'. createPrivateKey e = Inr k' \<and>
         filter is_account_key_event (history (snd (plugin_fs e s)))
           = filter is_account_key_event (history s)
               @ [CreatePrivateKey k', NewClient k' (pluginConfig_staging e)])) \<and>
   (fst (plugin_fs e s) \<noteq> Returned \<longrightarrow>
      filter is_account_key_event (history (snd (plugin_fs e s)))
        = filter is_account_key_event (history s)) \<and>
   disk (snd (plugin_fs e s)) = disk s \<and>
   filter is_account_key_event (history (snd (renew e s))) = filter is_account_key_event (history s) \<and>
   client (snd (renew e s)) = client s"
  using stored_account_key_is_reused[of e r k] missing_account_key_is_created[of e r k]
    created_account_key_is_stored[of e r k] plugin_fs_returned_makes_account_key[of e s]
    plugin_fs_rejected_makes_no_account_key[of e s] plugin_fs_keeps_disk[of e s]
    renew_makes_no_account_key[of e s]
  by blast

text \<open>
  The theorem at a first remote renewal on an empty store, a second one after it in a
  world whose key generator would give another key, and a start of the filesystem plugin.
\<close>

theorem account_key_per_variant_witness:
  "filter is_account_key_event (effects (snd (createOrRenewSSl example_env example_remote_state)))
     = [CreatePrivateKey ''ACCOUNT-KEY'', NewClient ''ACCOUNT-KEY'' False] \<and>
   small_files (snd (createOrRenewSSl example_env example_remote_state)) FILE_ACCOUNT_KEY_NAME
     = Some ''ACCOUNT-KEY'' \<and>
   filter is_account_key_event
     (effects (snd (createOrRenewSSl (example_env\<lparr>createPrivateKey := Inr ''OTHER-KEY''\<rparr>)
                      (snd (createOrRenewSSl example_env example_remote_state)))))
     = [CreatePrivateKey ''ACCOUNT-KEY'', NewClient ''ACCOUNT-KEY'' False,
        NewClient ''ACCOUNT-KEY'' False] \<and>
   filter is_account_key_event (history (snd (plugin_fs example_env example_fs_state)))
     = [CreatePrivateKey ''ACCOUNT-KEY'', NewClient ''ACCOUNT-KEY'' False]"
proof -
  let ?r1 = "snd (createOrRenewSSl example_env example_remote_state)"
  let ?e2 = "example_env\<lparr>createPrivateKey := Inr ''OTHER-KEY''\<rparr>"
  have h1: "getSslFile example_env FILE_ACCOUNT_KEY_NAME example_remote_state = None"
    by (simp add: getSslFile_def example_env_def example_remote_state_def)
  have h2: "createPrivateKey example_env = Inr ''ACCOUNT-KEY''"
    and h3: "\<not> createFile_fails example_env"
    and h4: "isSSlStaging_remote example_env = False"
    and h5: "pluginConfig_staging example_env = False"
    and h6: "\<not> openFile_fails ?e2"
    and h7: "isSSlStaging_remote ?e2 = False"
    by (simp_all add: example_env_def isSSlStaging_remote_def)
  have h8: "effects example_remote_state = []" by (simp add: example_remote_state_def)
  have h9: "history example_fs_state = []" by (simp add: example_fs_state_def)
  note first = account_key_per_variant[of example_env example_remote_state "''ACCOUNT-KEY''"
      example_fs_state]
  from first h1 h2 h3 have stored: "small_files ?r1 FILE_ACCOUNT_KEY_NAME = Some ''ACCOUNT-KEY''"
    by blast
  from first h1 h2 h4 h8 have evs1: "filter is_account_key_event (effects ?r1)
      = [CreatePrivateKey ''ACCOUNT-KEY'', NewClient ''ACCOUNT-KEY'' False]"
    by simp
  have h11: "fst (plugin_fs example_env example_fs_state) = Returned"
    by (simp add: plugin_fs_def Let_def ensure_configDir_def configDir_def example_env_def
          example_fs_state_def)
  from first h11 have "\<exists>k'. createPrivateKey example_env = Inr k' \<and>
      filter is_account_key_event (history (snd (plugin_fs example_env example_fs_state)))
        = filter is_account_key_event (history example_fs_state)
            @ [CreatePrivateKey k', NewClient k' (pluginConfig_staging example_env)]"
    by blast
  with h2 h5 h9 have evs3: "filter is_account_key_event
      (history (snd (plugin_fs example_env example_fs_state)))
      = [CreatePrivateKey ''ACCOUNT-KEY'', NewClient ''ACCOUNT-KEY'' False]"
    by auto
  from stored h6 have h10: "getSslFile ?e2 FILE_ACCOUNT_KEY_NAME ?r1 = Some ''ACCOUNT-KEY''"
    by (simp add: getSslFile_def)
  from account_key_per_variant[of ?e2 ?r1 "''ACCOUNT-KEY''" example_fs_state] h10 h7 evs1
  have evs2: "filter is_account_key_event (effects (snd (createOrRenewSSl ?e2 ?r1)))
      = [CreatePrivateKey ''ACCOUNT-KEY'', NewClient ''ACCOUNT-KEY'' False,
         NewClient ''ACCOUNT-KEY'' False]"
    by simp
  from stored evs1 evs2 evs3 show ?thesis by simp
qed

text \<open>
  The claim as stated fails in the filesystem variant: two starts of the plugin make two
  account keys, and the disk holds what it held before.
\<close>

theorem account_key_made_at_every_start:
  "filter is_account_key_event
     (history (snd (plugin_fs (example_env\<lparr>createPrivateKey := Inr ''OTHER-KEY''\<rparr>)
                      (fresh_process (snd (plugin_fs example_env (fresh_process example_fs_state)))))))
     = [CreatePrivateKey ''ACCOUNT-KEY'', NewClient ''ACCOUNT-KEY'' False,
        CreatePrivateKey ''OTHER-KEY'', NewClient ''OTHER-KEY'' False] \<and>
   disk (snd (plugin_fs (example_env\<lparr>createPrivateKey := Inr ''OTHER-KEY''\<rparr>)
                      (fresh_process (snd (plugin_fs example_env (fresh_process example_fs_state))))))
     = disk example_fs_state"
proof -
  let ?s1 = "fresh_process (snd (plugin_fs example_env (fresh_process example_fs_state)))"
  let ?e2 = "example_env\<lparr>createPrivateKey := Inr ''OTHER-KEY''\<rparr>"
  have d0: "configDir example_env \<in> directories (fresh_process example_fs_state)"
    by (simp add: configDir_def fresh_process_def example_env_def example_fs_state_def)
  then have c0: "ensure_configDir example_env (fresh_process example_fs_state)
                   = Inr (fresh_process example_fs_state)"
    by (simp add: ensure_configDir_def)
  have h1: "history (snd (plugin_fs example_env (fresh_process example_fs_state)))
              = [CreatePrivateKey ''ACCOUNT-KEY'', NewClient ''ACCOUNT-KEY'' False]"
    using c0
    by (simp add: plugin_fs_def Let_def load_stored_keeps fresh_process_def example_env_def
          example_fs_state_def)
  have d1: "directories (snd (plugin_fs example_env (fresh_process example_fs_state)))
              = directories (fresh_process example_fs_state)"
    using c0
    by (auto simp: plugin_fs_def Let_def load_stored_def load_cert_def load_key_def
          example_env_def split: option.splits)
  have "configDir ?e2 \<in> directories ?s1"
    using d0 d1 by (simp add: fresh_process_def configDir_def)
  then have c1: "ensure_configDir ?e2 ?s1 = Inr ?s1"
    by (simp add: ensure_configDir_def)
  have h2: "history (snd (plugin_fs ?e2 ?s1)) = history ?s1
              @ [CreatePrivateKey ''OTHER-KEY'', NewClient ''OTHER-KEY'' False]"
    using c1 by (simp add: plugin_fs_def Let_def load_stored_keeps example_env_def)
  have h3: "history ?s1 = [CreatePrivateKey ''ACCOUNT-KEY'', NewClient ''ACCOUNT-KEY'' False]"
    using h1 by (simp add: fresh_process_def)
  have h4: "disk (snd (plugin_fs ?e2 ?s1)) = disk example_fs_state"
    by (simp add: plugin_fs_keeps_disk fresh_process_def)
  from h2 h3 h4 show ?thesis by simp
qed


section \<open>The options of the automatic order flow\<close>

lemma renew_auto_calls:
  "\<exists>new. auto_calls (history (snd (renew e s))) = auto_calls (history s) @ new \<and>
         list_all (\<lambda>(req, tos, prio). tos \<and> prio = None) new"
  by (auto simp: renew_def generateCsr_def writeFile_def client_auto_def Let_def install_steps_def
        auto_event_opts auto_calls_append run_challenges_fs_fields
        split: sum.splits prod.splits if_splits)

lemma createOrRenewSSl_auto_calls:
  "\<exists>new. auto_calls (effects (snd (createOrRenewSSl e r))) = auto_calls (effects r) @ new \<and>
         list_all (\<lambda>(req, tos, prio). tos \<and> prio = Some [''http-01'']) new"
  by (auto simp: createOrRenewSSl_def load_or_create_accountKey_def auto_event_opts
        createIndependentFileSmall_def client_auto_def Let_def run_challenges_remote_fields
        auto_calls_append
        split: sum.splits prod.splits if_splits option.splits)

text \<open>
  C8, as amended. Every call of \<open>client.auto\<close> a renewal makes passes
  \<open>termsOfServiceAgreed = true\<close>; the remote variant also passes
  \<open>challengePriority = ["http-01"]\<close>, and the filesystem variant passes no
  \<open>challengePriority\<close>.
\<close>

theorem auto_options_per_variant:
  "(\<exists>new. auto_calls (history (snd (renew e s))) = auto_calls (history s) @ new \<and>
          list_all (\<lambda>(req, tos, prio). tos \<and> prio = None) new) \<and>
   (\<exists>new. auto_calls (effects (snd (createOrRenewSSl e r))) = auto_calls (effects r) @ new \<and>
          list_all (\<lambda>(req, tos, prio). tos \<and> prio = Some [''http-01'']) new)"
  using renew_auto_calls createOrRenewSSl_auto_calls by blast

text \<open>The theorem at a renewal that succeeds, in both variants.\<close>

theorem auto_options_per_variant_witness:
  "auto_calls (effects (snd (createOrRenewSSl example_env example_remote_state)))
     = [(''CSR'', True, Some [''http-01''])] \<and>
   (\<exists>new. auto_calls (history (snd (renew example_env example_fs_state))) = new \<and>
          list_all (\<lambda>(req, tos, prio). tos \<and> prio = None) new)"
proof -
  have a: "auto_calls (effects (snd (createOrRenewSSl example_env example_remote_state)))
             = [(''CSR'', True, Some [''http-01''])]"
    by (simp add: remote_run_defs example_env_def example_remote_state_def)
  have b: "auto_calls (history example_fs_state) = []"
    by (simp add: example_fs_state_def)
  from auto_options_per_variant[of example_env example_fs_state example_remote_state] a b
  show ?thesis by simp
qed

text \<open>
  The claim as stated fails in the filesystem variant: the one call of \<open>client.auto\<close>
  carries no restriction of the challenge type.
\<close>

theorem renew_passes_no_challenge_priority:
  "auto_calls (history (snd (renew example_env example_fs_state))) = [(''CSR'', True, None)]"
  by (simp add: fs_run_defs example_env_def example_fs_state_def)

section \<open>When the new key is persisted\<close>

lemma renew_writes_key_before_auto:
  "\<exists>new. history (snd (renew e s)) = history s @ new \<and>
      (auto_calls new = [] \<or>
       (\<exists>key req rest. createCsr e (ssl_domain e) = Inr (key, req) \<and>
          new = WriteFile (sslKeyPath e) key # AcmeAuto req True None # rest \<and>
          auto_calls rest = []))"
  by (auto simp: renew_def generateCsr_def writeFile_def client_auto_def Let_def install_steps_def
        auto_event_opts run_challenges_fs_fields
        split: sum.splits prod.splits if_splits)

lemma createOrRenewSSl_saves_after_auto:
  "fst (createOrRenewSSl e r) = Returned \<Longrightarrow>
   \<exists>before key req cert. createCsr e (config_domain e) = Inr (key, req) \<and>
      acme_result e = Inr cert \<and>
      effects (snd (createOrRenewSSl e r))
        = effects r @ before @ [AcmeAuto req True (Some [''http-01'']), SslSave cert key] \<and>
      auto_calls before = [] \<and> saved_pairs before = [] \<and>
      saved_ssl (snd (createOrRenewSSl e r)) = Some (cert, key)"
  apply (auto simp: createOrRenewSSl_def load_or_create_accountKey_def auto_event_opts
        createIndependentFileSmall_def client_auto_def Let_def run_challenges_remote_fields
        getSslFile_def
        split: sum.splits prod.splits if_splits option.splits)
  done

lemma createOrRenewSSl_failure_keeps_saved:
  "fst (createOrRenewSSl e r) \<noteq> Returned \<Longrightarrow>
   saved_ssl (snd (createOrRenewSSl e r)) = saved_ssl r"
  by (auto simp: createOrRenewSSl_def load_or_create_accountKey_def
        createIndependentFileSmall_def client_auto_def Let_def run_challenges_remote_fields
        split: sum.splits prod.splits if_splits option.splits)

text \<open>
  C9, as amended. In the filesystem variant a renewal that calls \<open>client.auto\<close> has
  written the new key to the key file immediately before, and calls it once. In the
  remote variant the new key is persisted only by the \<open>api.ssl.save\<close> that follows the
  call of \<open>client.auto\<close>, together with the certificate; a renewal that does not
  return leaves the saved pair as it was.
\<close>

theorem key_persisted_relative_to_auto:
  "(\<exists>new. history (snd (renew e s)) = history s @ new \<and>
      (auto_calls new = [] \<or>
       (\<exists>key req rest. createCsr e (ssl_domain e) = Inr (key, req) \<and>
          new = WriteFile (sslKeyPath e) key # AcmeAuto req True None # rest \<and>
          auto_calls rest = []))) \<and>
   (fst (createOrRenewSSl e r) = Returned \<longrightarrow>
      (\<exists>before key req cert. createCsr e (config_domain e) = Inr (key, req) \<and>
         acme_result e = Inr cert \<and>
         effects (snd (createOrRenewSSl e r))
           = effects r @ before @ [AcmeAuto req True (Some [''http-01'']), SslSave cert key] \<and>
         auto_calls before = [] \<and> saved_pairs before = [] \<and>
         saved_ssl (snd (createOrRenewSSl e r)) = Some (cert, key))) \<and>
   (fst (createOrRenewSSl e r) \<noteq> Returned \<longrightarrow>
      saved_ssl (snd (createOrRenewSSl e r)) = saved_ssl r)"
  using renew_writes_key_before_auto[of e s] createOrRenewSSl_saves_after_auto[of e r]
    createOrRenewSSl_failure_keeps_saved[of e r]
  by blast

text \<open>The theorem at a renewal that succeeds in both variants and at a remote one whose
  challenge is rejected.\<close>

theorem key_persisted_relative_to_auto_witness:
  "history (snd (renew example_env example_fs_state))
     = [WriteFile ''/etc/relay/letsencrypt/ssl.key'' ''NEW-KEY'',
        AcmeAuto ''CSR'' True None,
        WriteFile ''/etc/relay/letsencrypt/ssl.cert'' ''NEW-CERT''] \<and>
   fst (createOrRenewSSl example_env example_remote_state) = Returned \<and>
   saved_ssl (snd (createOrRenewSSl example_env example_remote_state))
     = Some (''NEW-CERT'', ''NEW-KEY'') \<and>
   fst (createOrRenewSSl acme_failing_env example_remote_state) = Exited 1 \<and>
   saved_ssl (snd (createOrRenewSSl acme_failing_env example_remote_state))
     = Some (''OLD-CERT'', ''OLD-KEY'')"
proof -
  have a: "history (snd (renew example_env example_fs_state))
     = [WriteFile ''/etc/relay/letsencrypt/ssl.key'' ''NEW-KEY'',
        AcmeAuto ''CSR'' True None,
        WriteFile ''/etc/relay/letsencrypt/ssl.cert'' ''NEW-CERT'']"
    by (simp add: fs_run_defs example_env_def example_fs_state_def)
  have b: "fst (createOrRenewSSl example_env example_remote_state) = Returned"
    by (simp add: remote_run_defs example_env_def example_remote_state_def)
  have c: "fst (createOrRenewSSl acme_failing_env example_remote_state) = Exited 1"
    by (simp add: remote_run_defs acme_failing_env_def example_env_def example_remote_state_def)
  have d: "createCsr example_env x = Inr (''NEW-KEY'', ''CSR'')" for x
    by (simp add: example_env_def)
  have e: "acme_result example_env = Inr ''NEW-CERT''"
    by (simp add: example_env_def)
  have f: "saved_ssl example_remote_state = Some (''OLD-CERT'', ''OLD-KEY'')"
    by (simp add: example_remote_state_def)
  from key_persisted_relative_to_auto[of example_env example_fs_state example_remote_state] b
  have "\<exists>before key req cert.
          createCsr example_env (config_domain example_env) = Inr (key, req) \<and>
          acme_result example_env = Inr cert \<and>
          saved_ssl (snd (createOrRenewSSl example_env example_remote_state)) = Some (cert, key)"
    by blast
  with d e have g: "saved_ssl (snd (createOrRenewSSl example_env example_remote_state))
                      = Some (''NEW-CERT'', ''NEW-KEY'')"
    by auto
  from key_persisted_relative_to_auto[of acme_failing_env example_fs_state example_remote_state] c f
  have h: "saved_ssl (snd (createOrRenewSSl acme_failing_env example_remote_state))
             = Some (''OLD-CERT'', ''OLD-KEY'')"
    by simp
  from a b c g h show ?thesis by simp
qed


text \<open>
  The claim as stated fails in the remote variant: the certificate authority is contacted
  fourth, and the new key is persisted fifth.
\<close>

theorem remote_key_saved_only_after_auto:
  "effects (snd (createOrRenewSSl example_env example_remote_state))
     = [CreatePrivateKey ''ACCOUNT-KEY'',
        CreateIndependentFileSmall ''/lumeweb/relay/account.key'' ''ACCOUNT-KEY'',
        NewClient ''ACCOUNT-KEY'' False,
        AcmeAuto ''CSR'' True (Some [''http-01'']),
        SslSave ''NEW-CERT'' ''NEW-KEY'']"
  by (simp add: remote_run_defs example_env_def example_remote_state_def)


section \<open>Removing a challenge in the remote variant\<close>




end
